theory Spec2Isabelle
  imports Main
begin

section \<open>Values, dict objects and the object store\<close>

text \<open>
  The values the schema generator handles are strings and dicts keyed by strings.
  A dict display keeps its entries in the order they are written, so a dict is an
  association list; the first binding of a key is the one a lookup sees.
\<close>

datatype pyval = Str string | Dict "(string \<times> pyval) list"

type_synonym pydict = "(string \<times> pyval) list"

text \<open>
  Python passes and returns dicts by reference. The store is the list of the dict
  objects alive in the process; an address is an index into it. The input record of a
  request is such an object, and so is every document a method returns. The dicts nested
  in a display are created by the display and reachable only through it, so they are
  kept by value inside the new object.
\<close>

type_synonym addr = nat

type_synonym heap = "pydict list"

text \<open>\<^verbatim>\<open>data.get(k, dflt)\<close> on the dict object at address \<open>a\<close>: a read of the store.\<close>

definition dict_get :: "heap \<Rightarrow> addr \<Rightarrow> string \<Rightarrow> pyval \<Rightarrow> pyval" where
  "dict_get h a k dflt = (case map_of (h ! a) k of Some v \<Rightarrow> v | None \<Rightarrow> dflt)"

text \<open>A dict display allocates a new object and yields its address.\<close>

definition new_dict :: "pydict \<Rightarrow> heap \<Rightarrow> addr \<times> heap" where
  "new_dict d h = (length h, h @ [d])"

section \<open>The shape methods of class SchemaGenerator\<close>

definition generate_organization :: "addr \<Rightarrow> heap \<Rightarrow> addr \<times> heap" where
  "generate_organization data h = new_dict
     [(''@context'', Str ''https://schema.org''),
      (''@type'', Str ''Organization''),
      (''name'', dict_get h data ''name'' (Str '''')),
      (''url'', dict_get h data ''url'' (Str '''')),
      (''logo'', dict_get h data ''logo'' (Str '''')),
      (''description'', dict_get h data ''description'' (Str '''')),
      (''address'', Dict
         [(''@type'', Str ''PostalAddress''),
          (''streetAddress'', dict_get h data ''street'' (Str '''')),
          (''addressLocality'', dict_get h data ''city'' (Str '''')),
          (''addressRegion'', dict_get h data ''state'' (Str '''')),
          (''postalCode'', dict_get h data ''zip'' (Str '''')),
          (''addressCountry'', dict_get h data ''country'' (Str ''''))]),
      (''contactPoint'', Dict
         [(''@type'', Str ''ContactPoint''),
          (''telephone'', dict_get h data ''phone'' (Str '''')),
          (''contactType'', Str ''customer service'')])] h"

definition generate_product :: "addr \<Rightarrow> heap \<Rightarrow> addr \<times> heap" where
  "generate_product data h = new_dict
     [(''@context'', Str ''https://schema.org''),
      (''@type'', Str ''Product''),
      (''name'', dict_get h data ''name'' (Str '''')),
      (''description'', dict_get h data ''description'' (Str '''')),
      (''image'', dict_get h data ''image'' (Str '''')),
      (''brand'', Dict
         [(''@type'', Str ''Brand''),
          (''name'', dict_get h data ''brand'' (Str ''''))]),
      (''offers'', Dict
         [(''@type'', Str ''Offer''),
          (''price'', dict_get h data ''price'' (Str '''')),
          (''priceCurrency'', dict_get h data ''currency'' (Str ''USD'')),
          (''availability'', Str ''https://schema.org/InStock'')])] h"

definition generate_article :: "addr \<Rightarrow> heap \<Rightarrow> addr \<times> heap" where
  "generate_article data h = new_dict
     [(''@context'', Str ''https://schema.org''),
      (''@type'', Str ''Article''),
      (''headline'', dict_get h data ''title'' (Str '''')),
      (''description'', dict_get h data ''description'' (Str '''')),
      (''author'', Dict
         [(''@type'', Str ''Person''),
          (''name'', dict_get h data ''author'' (Str ''''))]),
      (''datePublished'', dict_get h data ''date'' (Str '''')),
      (''image'', dict_get h data ''image'' (Str '''')),
      (''publisher'', Dict
         [(''@type'', Str ''Organization''),
          (''name'', dict_get h data ''publisher'' (Str ''''))])] h"

section \<open>Construction of the generator and dispatch\<close>

text \<open>
  The two ways a request can fail: an attribute lookup on the generator object that finds
  nothing (Python's AttributeError, with the attribute's name), and the handler's answer
  \<^verbatim>\<open>{'error': 'Invalid schema type'}\<close> with status 400 for a tag that is not a key of the
  dispatch table. The specification calls the second one UnknownTypeKind.
\<close>

datatype error = AttributeError string | InvalidSchemaType

type_synonym shape_method = "addr \<Rightarrow> heap \<Rightarrow> addr \<times> heap"

text \<open>
  The shape methods the class body defines, by name. Besides them the class body defines
  only \<^verbatim>\<open>__init__\<close>; the instance has no attribute of its own while \<^verbatim>\<open>__init__\<close> evaluates
  the dict display.
\<close>

definition SchemaGenerator_methods :: "(string \<times> shape_method) list" where
  "SchemaGenerator_methods =
     [(''generate_organization'', generate_organization),
      (''generate_product'', generate_product),
      (''generate_article'', generate_article)]"

text \<open>\<^verbatim>\<open>self.<name>\<close>: the bound method, or AttributeError when the class defines none.\<close>

definition getattr_self :: "string \<Rightarrow> error + shape_method" where
  "getattr_self name =
     (case map_of SchemaGenerator_methods name of
        Some m \<Rightarrow> Inr m
      | None \<Rightarrow> Inl (AttributeError name))"

text \<open>
  The dict display of \<^verbatim>\<open>__init__\<close>: each tag with the attribute of \<open>self\<close> written as its value,
  in source order.
\<close>

definition schema_types_display :: "(string \<times> string) list" where
  "schema_types_display =
     [(''Organization'', ''generate_organization''),
      (''Person'', ''generate_person''),
      (''Product'', ''generate_product''),
      (''Article'', ''generate_article''),
      (''LocalBusiness'', ''generate_local_business''),
      (''Event'', ''generate_event'')]"

text \<open>
  Evaluating a display left to right: the first attribute lookup that raises ends the
  evaluation with that exception.
\<close>

fun eval_display :: "(string \<times> string) list \<Rightarrow> error + (string \<times> shape_method) list" where
  "eval_display [] = Inr []"
| "eval_display ((tag, attr) # rest) =
     (case getattr_self attr of
        Inl e \<Rightarrow> Inl e
      | Inr m \<Rightarrow>
          (case eval_display rest of
             Inl e \<Rightarrow> Inl e
           | Inr tbl \<Rightarrow> Inr ((tag, m) # tbl)))"

text \<open>\<^verbatim>\<open>SchemaGenerator()\<close>: the value of \<^verbatim>\<open>self.schema_types\<close>, or the exception \<^verbatim>\<open>__init__\<close> raised.\<close>

definition SchemaGenerator_init :: "error + (string \<times> shape_method) list" where
  "SchemaGenerator_init = eval_display schema_types_display"

text \<open>
  The module-level statement \<^verbatim>\<open>generator = SchemaGenerator()\<close>. It runs once, when the
  module is loaded; nothing rebinds \<open>generator\<close> or updates its table afterwards, so the
  binding is a constant. An exception here aborts the load of the module, and every
  request sent to it meets that failure.
\<close>

definition generator :: "error + (string \<times> shape_method) list" where
  "generator = SchemaGenerator_init"

text \<open>
  The handler \<^verbatim>\<open>generate_schema\<close> once it has taken \<open>schema_type\<close> and \<open>form_data\<close> out of
  the request body: the operation the specification calls \<open>build\<close>. It returns the address
  of the new document, or the failure, together with the store after the call.
\<close>

definition generate_schema :: "string \<Rightarrow> addr \<Rightarrow> heap \<Rightarrow> (error + addr) \<times> heap" where
  "generate_schema schema_type form_data h =
     (case generator of
        Inl e \<Rightarrow> (Inl e, h)
      | Inr schema_types \<Rightarrow>
          (case map_of schema_types schema_type of
             Some m \<Rightarrow> (case m form_data h of (schema, h') \<Rightarrow> (Inr schema, h'))
           | None \<Rightarrow> (Inl InvalidSchemaType, h)))"

section \<open>Observations on documents\<close>

text \<open>The dict object a method call returned, read from the store after the call.\<close>

definition document :: "addr \<times> heap \<Rightarrow> pydict" where
  "document res = snd res ! fst res"

text \<open>The value found by following a path of keys from a value, if there is one.\<close>

fun lookup_path :: "pyval \<Rightarrow> string list \<Rightarrow> pyval option" where
  "lookup_path v [] = Some v"
| "lookup_path (Dict kvs) (k # ks) =
     (case map_of kvs k of None \<Rightarrow> None | Some v \<Rightarrow> lookup_path v ks)"
| "lookup_path (Str s) (k # ks) = None"

definition field :: "addr \<times> heap \<Rightarrow> string list \<Rightarrow> pyval option" where
  "field res path = lookup_path (Dict (document res)) path"

text \<open>\<^verbatim>\<open>k in data\<close> for the dict object at address \<open>a\<close>.\<close>

definition has_key :: "heap \<Rightarrow> addr \<Rightarrow> string \<Rightarrow> bool" where
  "has_key h a k = (map_of (h ! a) k \<noteq> None)"

text \<open>
  What a caller can tell of a call of the handler without comparing addresses: the
  failure, or the document as a value.
\<close>

definition outcome :: "(error + addr) \<times> heap \<Rightarrow> error + pydict" where
  "outcome res = (case fst res of Inl e \<Rightarrow> Inl e | Inr r \<Rightarrow> Inr (snd res ! r))"

section \<open>Basic facts\<close>

lemma getattr_organization: "getattr_self ''generate_organization'' = Inr generate_organization"
  by (simp add: getattr_self_def SchemaGenerator_methods_def)

lemma getattr_person: "getattr_self ''generate_person'' = Inl (AttributeError ''generate_person'')"
  by (simp add: getattr_self_def SchemaGenerator_methods_def)

lemma generator_raises: "generator = Inl (AttributeError ''generate_person'')"
  by (simp add: generator_def SchemaGenerator_init_def schema_types_display_def
      getattr_organization getattr_person)

lemma generate_schema_raises:
  "generate_schema schema_type form_data h = (Inl (AttributeError ''generate_person''), h)"
  by (simp add: generate_schema_def generator_raises)

subsection \<open>Allocation and reads\<close>

lemma document_new_dict: "document (new_dict d h) = d"
  by (simp add: document_def new_dict_def)

lemma new_dict_frame: "take (length h) (snd (new_dict d h)) = h"
  by (simp add: new_dict_def)

lemma new_dict_keeps: "a < length h \<Longrightarrow> snd (new_dict d h) ! a = h ! a"
  by (simp add: new_dict_def nth_append)

lemma new_dict_fresh: "\<not> fst (new_dict d h) < length h"
  by (simp add: new_dict_def)

lemma dict_get_absent: "\<not> has_key h a k \<Longrightarrow> dict_get h a k dflt = dflt"
  by (simp add: has_key_def dict_get_def)

lemma dict_get_same_object:
  "h1 ! a1 = h2 ! a2 \<Longrightarrow> dict_get h1 a1 k dflt = dict_get h2 a2 k dflt"
  by (simp add: dict_get_def)

lemmas shape_defs = generate_organization_def generate_product_def generate_article_def

subsection \<open>The shape methods and the store\<close>

lemma methods_same_document:
  assumes "h1 ! a1 = h2 ! a2"
  shows "document (generate_organization a1 h1) = document (generate_organization a2 h2)"
    and "document (generate_product a1 h1) = document (generate_product a2 h2)"
    and "document (generate_article a1 h1) = document (generate_article a2 h2)"
  by (simp_all add: shape_defs document_new_dict dict_get_same_object [OF assms])

lemma methods_keep:
  assumes "a < length h"
  shows "snd (generate_organization data h) ! a = h ! a"
    and "snd (generate_product data h) ! a = h ! a"
    and "snd (generate_article data h) ! a = h ! a"
  using assms by (simp_all add: shape_defs new_dict_keeps)

lemma methods_frame:
  shows "take (length h) (snd (generate_organization data h)) = h"
    and "take (length h) (snd (generate_product data h)) = h"
    and "take (length h) (snd (generate_article data h)) = h"
  by (simp_all add: shape_defs new_dict_frame)

lemma methods_fresh:
  shows "\<not> fst (generate_organization data h) < length h"
    and "\<not> fst (generate_product data h) < length h"
    and "\<not> fst (generate_article data h) < length h"
  by (simp_all add: shape_defs new_dict_fresh)

lemma methods_repeat:
  assumes "a < length h"
  shows "document (generate_organization a (snd (generate_organization a h)))
           = document (generate_organization a h)"
    and "document (generate_product a (snd (generate_product a h)))
           = document (generate_product a h)"
    and "document (generate_article a (snd (generate_article a h)))
           = document (generate_article a h)"
proof -
  show "document (generate_organization a (snd (generate_organization a h)))
           = document (generate_organization a h)"
    by (rule methods_same_document(1)) (rule methods_keep(1) [OF assms])
  show "document (generate_product a (snd (generate_product a h)))
           = document (generate_product a h)"
    by (rule methods_same_document(2)) (rule methods_keep(2) [OF assms])
  show "document (generate_article a (snd (generate_article a h)))
           = document (generate_article a h)"
    by (rule methods_same_document(3)) (rule methods_keep(3) [OF assms])
qed

subsection \<open>Fields read from an absent key\<close>

lemma organization_absent_keys:
  "(\<not> has_key h data ''name'' \<longrightarrow>
      field (generate_organization data h) [''name''] = Some (Str ''''))
   \<and> (\<not> has_key h data ''url'' \<longrightarrow>
      field (generate_organization data h) [''url''] = Some (Str ''''))
   \<and> (\<not> has_key h data ''logo'' \<longrightarrow>
      field (generate_organization data h) [''logo''] = Some (Str ''''))
   \<and> (\<not> has_key h data ''description'' \<longrightarrow>
      field (generate_organization data h) [''description''] = Some (Str ''''))
   \<and> (\<not> has_key h data ''street'' \<longrightarrow>
      field (generate_organization data h) [''address'', ''streetAddress''] = Some (Str ''''))
   \<and> (\<not> has_key h data ''city'' \<longrightarrow>
      field (generate_organization data h) [''address'', ''addressLocality''] = Some (Str ''''))
   \<and> (\<not> has_key h data ''state'' \<longrightarrow>
      field (generate_organization data h) [''address'', ''addressRegion''] = Some (Str ''''))
   \<and> (\<not> has_key h data ''zip'' \<longrightarrow>
      field (generate_organization data h) [''address'', ''postalCode''] = Some (Str ''''))
   \<and> (\<not> has_key h data ''country'' \<longrightarrow>
      field (generate_organization data h) [''address'', ''addressCountry''] = Some (Str ''''))
   \<and> (\<not> has_key h data ''phone'' \<longrightarrow>
      field (generate_organization data h) [''contactPoint'', ''telephone''] = Some (Str ''''))"
  by (simp add: field_def generate_organization_def document_new_dict dict_get_absent)

lemma product_absent_keys:
  "(\<not> has_key h data ''name'' \<longrightarrow>
      field (generate_product data h) [''name''] = Some (Str ''''))
   \<and> (\<not> has_key h data ''description'' \<longrightarrow>
      field (generate_product data h) [''description''] = Some (Str ''''))
   \<and> (\<not> has_key h data ''image'' \<longrightarrow>
      field (generate_product data h) [''image''] = Some (Str ''''))
   \<and> (\<not> has_key h data ''brand'' \<longrightarrow>
      field (generate_product data h) [''brand'', ''name''] = Some (Str ''''))
   \<and> (\<not> has_key h data ''price'' \<longrightarrow>
      field (generate_product data h) [''offers'', ''price''] = Some (Str ''''))
   \<and> (\<not> has_key h data ''currency'' \<longrightarrow>
      field (generate_product data h) [''offers'', ''priceCurrency''] = Some (Str ''USD''))"
  by (simp add: field_def generate_product_def document_new_dict dict_get_absent)

lemma article_absent_keys:
  "(\<not> has_key h data ''title'' \<longrightarrow>
      field (generate_article data h) [''headline''] = Some (Str ''''))
   \<and> (\<not> has_key h data ''description'' \<longrightarrow>
      field (generate_article data h) [''description''] = Some (Str ''''))
   \<and> (\<not> has_key h data ''author'' \<longrightarrow>
      field (generate_article data h) [''author'', ''name''] = Some (Str ''''))
   \<and> (\<not> has_key h data ''date'' \<longrightarrow>
      field (generate_article data h) [''datePublished''] = Some (Str ''''))
   \<and> (\<not> has_key h data ''image'' \<longrightarrow>
      field (generate_article data h) [''image''] = Some (Str ''''))
   \<and> (\<not> has_key h data ''publisher'' \<longrightarrow>
      field (generate_article data h) [''publisher'', ''name''] = Some (Str ''''))"
  by (simp add: field_def generate_article_def document_new_dict dict_get_absent)

subsection \<open>The shape methods called on their own\<close>

text \<open>
  What each method the class defines returns when it is applied to a record directly,
  without going through the generator object.
\<close>

lemma root_discriminators:
  "field (generate_organization data h) [''@context''] = Some (Str ''https://schema.org'')"
  "field (generate_organization data h) [''@type''] = Some (Str ''Organization'')"
  "field (generate_product data h) [''@context''] = Some (Str ''https://schema.org'')"
  "field (generate_product data h) [''@type''] = Some (Str ''Product'')"
  "field (generate_article data h) [''@context''] = Some (Str ''https://schema.org'')"
  "field (generate_article data h) [''@type''] = Some (Str ''Article'')"
  by (simp_all add: field_def shape_defs document_new_dict)

lemma article_remapping:
  "field (generate_article data h) [''headline''] = Some (dict_get h data ''title'' (Str ''''))"
  "field (generate_article data h) [''datePublished''] = Some (dict_get h data ''date'' (Str ''''))"
  "field (generate_article data h) [''title''] = None"
  "field (generate_article data h) [''date''] = None"
  by (simp_all add: field_def generate_article_def document_new_dict)

lemma article_example:
  "field (generate_article 0 [[(''title'', Str ''T''), (''date'', Str ''2024-01-15'')]])
     [''headline''] = Some (Str ''T'')"
  "field (generate_article 0 [[(''title'', Str ''T''), (''date'', Str ''2024-01-15'')]])
     [''datePublished''] = Some (Str ''2024-01-15'')"
  by (simp_all add: article_remapping dict_get_def)

lemma organization_example:
  "field (generate_organization 0 [[(''name'', Str ''Acme''), (''city'', Str ''Springfield'')]])
     [''name''] = Some (Str ''Acme'')"
  "field (generate_organization 0 [[(''name'', Str ''Acme''), (''city'', Str ''Springfield'')]])
     [''address'', ''addressLocality''] = Some (Str ''Springfield'')"
  "field (generate_organization 0 [[(''name'', Str ''Acme''), (''city'', Str ''Springfield'')]])
     [''address'', ''streetAddress''] = Some (Str '''')"
  "field (generate_organization 0 [[(''name'', Str ''Acme''), (''city'', Str ''Springfield'')]])
     [''contactPoint'', ''telephone''] = Some (Str '''')"
  by (simp_all add: field_def generate_organization_def document_new_dict dict_get_def)

section \<open>The claims of the specification\<close>

text \<open>
  Claim C1 says that for every recognised tag and every input record, the empty one
  included, \<open>build\<close> returns a document whose root carries \<open>@context\<close>
  \<^verbatim>\<open>https://schema.org\<close> and \<open>@type\<close> equal to the tag. The code does not: for each of the
  six tags and the empty record the call ends with the AttributeError that the
  construction of the generator object raised, and returns no document.
\<close>

theorem recognised_tags_empty_record_raise:
  "generate_schema ''Organization'' 0 [[]] = (Inl (AttributeError ''generate_person''), [[]])
   \<and> generate_schema ''Person'' 0 [[]] = (Inl (AttributeError ''generate_person''), [[]])
   \<and> generate_schema ''Product'' 0 [[]] = (Inl (AttributeError ''generate_person''), [[]])
   \<and> generate_schema ''Article'' 0 [[]] = (Inl (AttributeError ''generate_person''), [[]])
   \<and> generate_schema ''LocalBusiness'' 0 [[]] = (Inl (AttributeError ''generate_person''), [[]])
   \<and> generate_schema ''Event'' 0 [[]] = (Inl (AttributeError ''generate_person''), [[]])"
  by (simp add: generate_schema_raises)

text \<open>
  Claim C2 says that every leaf field of the output whose source key is not present in
  the input record equals the empty string. The field \<open>offers.priceCurrency\<close> of a Product
  does not: with no \<open>currency\<close> key in the record it is \<^verbatim>\<open>USD\<close>.
\<close>

theorem default_fill_counterexample:
  "\<not> has_key [[]] 0 ''currency''
   \<and> field (generate_product 0 [[]]) [''offers'', ''priceCurrency''] = Some (Str ''USD'')
   \<and> field (generate_product 0 [[]]) [''offers'', ''priceCurrency''] \<noteq> Some (Str '''')"
  by (simp add: has_key_def field_def generate_product_def document_new_dict dict_get_def)

text \<open>
  Claim C2 as amended: for every input record in the store, each leaf field that
  \<open>generate_organization\<close>, \<open>generate_product\<close> or \<open>generate_article\<close> reads from the record
  equals the empty string when its source key is absent, except \<open>offers.priceCurrency\<close> of a
  Product, which is then \<^verbatim>\<open>USD\<close>.
\<close>

theorem default_fill:
  assumes "data < length h"
  shows "(\<not> has_key h data ''name'' \<longrightarrow>
      field (generate_organization data h) [''name''] = Some (Str ''''))
   \<and> (\<not> has_key h data ''url'' \<longrightarrow>
      field (generate_organization data h) [''url''] = Some (Str ''''))
   \<and> (\<not> has_key h data ''logo'' \<longrightarrow>
      field (generate_organization data h) [''logo''] = Some (Str ''''))
   \<and> (\<not> has_key h data ''description'' \<longrightarrow>
      field (generate_organization data h) [''description''] = Some (Str ''''))
   \<and> (\<not> has_key h data ''street'' \<longrightarrow>
      field (generate_organization data h) [''address'', ''streetAddress''] = Some (Str ''''))
   \<and> (\<not> has_key h data ''city'' \<longrightarrow>
      field (generate_organization data h) [''address'', ''addressLocality''] = Some (Str ''''))
   \<and> (\<not> has_key h data ''state'' \<longrightarrow>
      field (generate_organization data h) [''address'', ''addressRegion''] = Some (Str ''''))
   \<and> (\<not> has_key h data ''zip'' \<longrightarrow>
      field (generate_organization data h) [''address'', ''postalCode''] = Some (Str ''''))
   \<and> (\<not> has_key h data ''country'' \<longrightarrow>
      field (generate_organization data h) [''address'', ''addressCountry''] = Some (Str ''''))
   \<and> (\<not> has_key h data ''phone'' \<longrightarrow>
      field (generate_organization data h) [''contactPoint'', ''telephone''] = Some (Str ''''))
   \<and> (\<not> has_key h data ''name'' \<longrightarrow>
      field (generate_product data h) [''name''] = Some (Str ''''))
   \<and> (\<not> has_key h data ''description'' \<longrightarrow>
      field (generate_product data h) [''description''] = Some (Str ''''))
   \<and> (\<not> has_key h data ''image'' \<longrightarrow>
      field (generate_product data h) [''image''] = Some (Str ''''))
   \<and> (\<not> has_key h data ''brand'' \<longrightarrow>
      field (generate_product data h) [''brand'', ''name''] = Some (Str ''''))
   \<and> (\<not> has_key h data ''price'' \<longrightarrow>
      field (generate_product data h) [''offers'', ''price''] = Some (Str ''''))
   \<and> (\<not> has_key h data ''currency'' \<longrightarrow>
      field (generate_product data h) [''offers'', ''priceCurrency''] = Some (Str ''USD''))
   \<and> (\<not> has_key h data ''title'' \<longrightarrow>
      field (generate_article data h) [''headline''] = Some (Str ''''))
   \<and> (\<not> has_key h data ''description'' \<longrightarrow>
      field (generate_article data h) [''description''] = Some (Str ''''))
   \<and> (\<not> has_key h data ''author'' \<longrightarrow>
      field (generate_article data h) [''author'', ''name''] = Some (Str ''''))
   \<and> (\<not> has_key h data ''date'' \<longrightarrow>
      field (generate_article data h) [''datePublished''] = Some (Str ''''))
   \<and> (\<not> has_key h data ''image'' \<longrightarrow>
      field (generate_article data h) [''image''] = Some (Str ''''))
   \<and> (\<not> has_key h data ''publisher'' \<longrightarrow>
      field (generate_article data h) [''publisher'', ''name''] = Some (Str ''''))"
  using organization_absent_keys [of h data] product_absent_keys [of h data]
    article_absent_keys [of h data]
  by (elim conjE) (intro conjI; assumption)

theorem default_fill_witness:
  "(0::nat) < length [[] :: pydict]
   \<and> field (generate_organization 0 [[]]) [''name''] = Some (Str '''')
   \<and> field (generate_organization 0 [[]]) [''address'', ''postalCode''] = Some (Str '''')
   \<and> field (generate_organization 0 [[]]) [''contactPoint'', ''telephone''] = Some (Str '''')
   \<and> field (generate_product 0 [[]]) [''brand'', ''name''] = Some (Str '''')
   \<and> field (generate_product 0 [[]]) [''offers'', ''price''] = Some (Str '''')
   \<and> field (generate_product 0 [[]]) [''offers'', ''priceCurrency''] = Some (Str ''USD'')
   \<and> field (generate_article 0 [[]]) [''headline''] = Some (Str '''')
   \<and> field (generate_article 0 [[]]) [''datePublished''] = Some (Str '''')
   \<and> field (generate_article 0 [[]]) [''publisher'', ''name''] = Some (Str '''')"
  using default_fill [of 0 "[[]]"] by (simp add: has_key_def)

text \<open>
  Claim C3 says that \<open>build\<close> fails with UnknownTypeKind exactly when the tag is not one of
  the known tags, as for \<^verbatim>\<open>NotARealType\<close> with the empty record, and that it has no other
  failure. The code fails there with the AttributeError of the generator's construction,
  which is not the handler's answer for an unknown tag.
\<close>

theorem unknown_tag_raises_attribute_error:
  "generate_schema ''NotARealType'' 0 [[]] = (Inl (AttributeError ''generate_person''), [[]])
   \<and> fst (generate_schema ''NotARealType'' 0 [[]]) \<noteq> Inl InvalidSchemaType"
  by (simp add: generate_schema_raises)

text \<open>
  Claim C4: for every tag of the closed set Organization, Person, Product, Article,
  LocalBusiness, Event and every input record, \<open>build\<close> does not fail with UnknownTypeKind.
  Each of the six tags is a key written in the dispatch table's display, and no call for
  one of them ends with the handler's answer for an unknown tag.
\<close>

theorem known_tags_not_invalid:
  assumes "tag \<in> {''Organization'', ''Person'', ''Product'', ''Article'', ''LocalBusiness'', ''Event''}"
  shows "tag \<in> set (map fst schema_types_display)
    \<and> fst (generate_schema tag form_data h) \<noteq> Inl InvalidSchemaType"
  using assms by (auto simp add: schema_types_display_def generate_schema_raises)

theorem known_tags_not_invalid_witness:
  "''Person'' \<in> set (map fst schema_types_display)
    \<and> fst (generate_schema ''Person'' 0 [[]]) \<noteq> Inl InvalidSchemaType"
  using known_tags_not_invalid [of "''Person''" 0 "[[]]"] by simp

text \<open>
  Claim C5: the dispatch table built in \<^verbatim>\<open>__init__\<close> names the methods \<open>generate_person\<close>,
  \<open>generate_local_business\<close> and \<open>generate_event\<close>, which the class does not define; so
  constructing a SchemaGenerator raises an attribute-lookup error, every call of \<open>build\<close>,
  whatever the tag and the record, fails with that error, which is not UnknownTypeKind,
  and no document is produced for Person, LocalBusiness or Event.
\<close>

theorem construction_raises:
  "map_of schema_types_display ''Person'' = Some ''generate_person''
   \<and> map_of schema_types_display ''LocalBusiness'' = Some ''generate_local_business''
   \<and> map_of schema_types_display ''Event'' = Some ''generate_event''
   \<and> map_of SchemaGenerator_methods ''generate_person'' = None
   \<and> map_of SchemaGenerator_methods ''generate_local_business'' = None
   \<and> map_of SchemaGenerator_methods ''generate_event'' = None
   \<and> SchemaGenerator_init = Inl (AttributeError ''generate_person'')
   \<and> generate_schema tag form_data h = (Inl (AttributeError ''generate_person''), h)
   \<and> AttributeError ''generate_person'' \<noteq> InvalidSchemaType
   \<and> (\<forall>doc. fst (generate_schema ''Person'' form_data h) \<noteq> Inr doc)
   \<and> (\<forall>doc. fst (generate_schema ''LocalBusiness'' form_data h) \<noteq> Inr doc)
   \<and> (\<forall>doc. fst (generate_schema ''Event'' form_data h) \<noteq> Inr doc)"
proof -
  have "SchemaGenerator_init = Inl (AttributeError ''generate_person'')"
    using generator_raises by (simp add: generator_def)
  then show ?thesis
    by (simp add: schema_types_display_def SchemaGenerator_methods_def generate_schema_raises)
qed

text \<open>
  Claim C6 says, for the Product document, that \<open>offers.priceCurrency\<close> equals \<^verbatim>\<open>USD\<close> exactly
  when the key \<open>currency\<close> is absent from the input record. It does not: a record that
  holds \<open>currency\<close> with the value \<^verbatim>\<open>USD\<close> has the key present and the field equal to \<^verbatim>\<open>USD\<close>.
\<close>

theorem currency_usd_counterexample:
  "has_key [[(''currency'', Str ''USD'')]] 0 ''currency''
   \<and> field (generate_product 0 [[(''currency'', Str ''USD'')]]) [''offers'', ''priceCurrency'']
        = Some (Str ''USD'')"
  by (simp add: has_key_def field_def generate_product_def document_new_dict dict_get_def)

text \<open>
  Claim C6 as amended: for every input record in the store, the document of
  \<open>generate_product\<close> has \<open>offers.availability\<close> equal to \<^verbatim>\<open>https://schema.org/InStock\<close>, the
  document of \<open>generate_organization\<close> has \<open>contactPoint.contactType\<close> equal to
  \<^verbatim>\<open>customer service\<close>, and \<open>offers.priceCurrency\<close> of the Product document equals \<^verbatim>\<open>USD\<close> when
  the key \<open>currency\<close> is absent from the record and the record's \<open>currency\<close> value otherwise.
\<close>

theorem fixed_literals:
  assumes "data < length h"
  shows "field (generate_product data h) [''offers'', ''availability'']
           = Some (Str ''https://schema.org/InStock'')
    \<and> field (generate_organization data h) [''contactPoint'', ''contactType'']
           = Some (Str ''customer service'')
    \<and> (\<not> has_key h data ''currency'' \<longrightarrow>
          field (generate_product data h) [''offers'', ''priceCurrency''] = Some (Str ''USD''))
    \<and> (has_key h data ''currency'' \<longrightarrow>
          field (generate_product data h) [''offers'', ''priceCurrency'']
            = map_of (h ! data) ''currency'')"
  by (simp add: field_def shape_defs document_new_dict dict_get_absent)
     (auto simp add: dict_get_def has_key_def)

theorem fixed_literals_witness:
  "(0::nat) < length [[] :: pydict]
    \<and> field (generate_product 0 [[]]) [''offers'', ''availability'']
           = Some (Str ''https://schema.org/InStock'')
    \<and> field (generate_organization 0 [[]]) [''contactPoint'', ''contactType'']
           = Some (Str ''customer service'')
    \<and> field (generate_product 0 [[]]) [''offers'', ''priceCurrency''] = Some (Str ''USD'')
    \<and> field (generate_product 0 [[(''currency'', Str ''EUR'')]]) [''offers'', ''priceCurrency'']
           = Some (Str ''EUR'')"
  using fixed_literals [of 0 "[[]]"] fixed_literals [of 0 "[[(''currency'', Str ''EUR'')]]"]
  by (simp add: has_key_def)

text \<open>
  Claim C7 says that the field names are remapped for the tag Article, and that in
  particular \<open>build\<close> with the tag Article and the record of title \<^verbatim>\<open>T\<close> and date \<^verbatim>\<open>2024-01-15\<close>
  yields headline \<^verbatim>\<open>T\<close> and datePublished \<^verbatim>\<open>2024-01-15\<close>. The code returns no document for
  that call: it ends with the AttributeError of the generator's construction, and the
  record is the only object of the store afterwards.
\<close>

theorem article_request_raises:
  "generate_schema ''Article'' 0 [[(''title'', Str ''T''), (''date'', Str ''2024-01-15'')]]
     = (Inl (AttributeError ''generate_person''),
        [[(''title'', Str ''T''), (''date'', Str ''2024-01-15'')]])"
  by (simp add: generate_schema_raises)

text \<open>
  Claim C8 says that \<open>build\<close> with the tag Organization and the record of name \<^verbatim>\<open>Acme\<close> and
  city \<^verbatim>\<open>Springfield\<close> returns a document with name \<^verbatim>\<open>Acme\<close>, \<open>address.addressLocality\<close>
  \<^verbatim>\<open>Springfield\<close>, and empty \<open>address.streetAddress\<close> and \<open>contactPoint.telephone\<close>. The code
  returns no document for that call: it ends with the AttributeError of the generator's
  construction.
\<close>

theorem organization_request_raises:
  "generate_schema ''Organization'' 0 [[(''name'', Str ''Acme''), (''city'', Str ''Springfield'')]]
     = (Inl (AttributeError ''generate_person''),
        [[(''name'', Str ''Acme''), (''city'', Str ''Springfield'')]])"
  by (simp add: generate_schema_raises)

text \<open>
  Claim C9: \<open>build\<close> is deterministic, its output depends only on the tag and the record.
  Two calls whose records are equal as values, wherever the records and the rest of the
  store are, have the same outcome; and for every shape method the class defines, two
  such calls return equal documents, and so does a second call made on the store the
  first call left.
\<close>

theorem deterministic:
  assumes "a1 < length h1" and "a2 < length h2" and "h1 ! a1 = h2 ! a2"
  shows "outcome (generate_schema tag a1 h1) = outcome (generate_schema tag a2 h2)
    \<and> (\<forall>(name, m) \<in> set SchemaGenerator_methods.
          document (m a1 h1) = document (m a2 h2)
          \<and> document (m a1 (snd (m a1 h1))) = document (m a1 h1))"
proof -
  have "outcome (generate_schema tag a1 h1) = outcome (generate_schema tag a2 h2)"
    by (simp add: generate_schema_raises outcome_def)
  moreover have "\<forall>(name, m) \<in> set SchemaGenerator_methods.
      document (m a1 h1) = document (m a2 h2)"
    using methods_same_document [OF assms(3)] by (simp add: SchemaGenerator_methods_def)
  moreover have "\<forall>(name, m) \<in> set SchemaGenerator_methods.
      document (m a1 (snd (m a1 h1))) = document (m a1 h1)"
    using methods_repeat [OF assms(1)] by (simp add: SchemaGenerator_methods_def)
  ultimately show ?thesis by auto
qed

theorem deterministic_witness:
  "(0::nat) < length [[(''name'', Str ''Lamp'')]]
   \<and> outcome (generate_schema ''Product'' 0 [[(''name'', Str ''Lamp'')]])
     = outcome (generate_schema ''Product'' 1 [[], [(''name'', Str ''Lamp'')]])
   \<and> document (generate_product 0 [[(''name'', Str ''Lamp'')]])
     = document (generate_product 1 [[], [(''name'', Str ''Lamp'')]])"
  using deterministic [of 0 "[[(''name'', Str ''Lamp'')]]" 1 "[[], [(''name'', Str ''Lamp'')]]" "''Product''"]
  by (simp add: SchemaGenerator_methods_def)

text \<open>
  Claim C10: \<open>build\<close> has no side effects. After a call every object that was in the store
  before it, the input record among them, is as it was; and for every shape method the
  class defines the same holds, and the document it returns is a new object, at an
  address that no object had before the call.
\<close>

theorem no_side_effects:
  assumes "data < length h"
  shows "take (length h) (snd (generate_schema tag data h)) = h
    \<and> snd (generate_schema tag data h) ! data = h ! data
    \<and> (\<forall>(name, m) \<in> set SchemaGenerator_methods.
          take (length h) (snd (m data h)) = h
          \<and> snd (m data h) ! data = h ! data
          \<and> \<not> fst (m data h) < length h)"
proof -
  have "take (length h) (snd (generate_schema tag data h)) = h"
    and "snd (generate_schema tag data h) ! data = h ! data"
    by (simp_all add: generate_schema_raises)
  moreover have "\<forall>(name, m) \<in> set SchemaGenerator_methods.
      take (length h) (snd (m data h)) = h
      \<and> snd (m data h) ! data = h ! data
      \<and> \<not> fst (m data h) < length h"
    using methods_frame [of h data] methods_keep [OF assms, of data] methods_fresh [of data h]
    by (simp add: SchemaGenerator_methods_def)
  ultimately show ?thesis by simp
qed

theorem no_side_effects_witness:
  "snd (generate_schema ''Article'' 0 [[(''title'', Str ''T'')]]) ! 0 = [(''title'', Str ''T'')]
   \<and> snd (generate_article 0 [[(''title'', Str ''T'')]]) ! 0 = [(''title'', Str ''T'')]
   \<and> take 1 (snd (generate_article 0 [[(''title'', Str ''T'')]])) = [[(''title'', Str ''T'')]]
   \<and> \<not> fst (generate_article 0 [[(''title'', Str ''T'')]]) < 1"
  using no_side_effects [of 0 "[[(''title'', Str ''T'')]]" "''Article''"]
  by (simp add: SchemaGenerator_methods_def)

end
